theory Spec2Isabelle
  imports Main "HOL-Library.Sublist"
begin

section \<open>Data model of \<^verbatim>\<open>bin/plugin/lib/milestone.js\<close>\<close>

text \<open>
  The module talks to the GitHub REST API through an injected Octokit client. The records
  below carry the fields the module reads. Fields the API declares as
  \<^verbatim>\<open>string | null\<close> (a release's \<^verbatim>\<open>name\<close> and \<^verbatim>\<open>published_at\<close>, an issue's
  \<^verbatim>\<open>closed_at\<close>) are nullable; JavaScript strings are modelled as \<^typ>\<open>string\<close>.
\<close>

datatype 'a nullable = Null | Value 'a

text \<open>
  What a rejected promise or a throw carries: the \<^verbatim>\<open>TypeError\<close> of reading a property of
  null, or an error raised by the client (transport, authorisation, not found).
\<close>

datatype error = TypeError | RequestError string

datatype IssueState = StateOpen | StateClosed | StateAll

record Milestone =
  number :: int
  title :: string

record Release =
  name :: "string nullable"
  published_at :: "string nullable"

record Issue =
  issue_number :: int
  closed_at :: "string nullable"

text \<open>
  The options object built at lines 84-92. A key that the object does not have is \<open>None\<close>:
  \<^verbatim>\<open>state\<close> when the caller passed undefined, \<^verbatim>\<open>since\<close> when the spread operand was
  undefined. A key that is present with the value null is \<open>Some Null\<close>.
\<close>

record Options =
  opt_owner :: string
  opt_repo :: string
  opt_milestone :: int
  opt_state :: "IssueState option"
  opt_since :: "string nullable option"

text \<open>
  One request sent to the API. The paginating iterator sends one request for each page it
  yields; the log of requests is the state that the operations thread through.
\<close>

datatype request =
    GetMilestone string string int
  | ListMilestones string string
  | ListReleases string string
  | ListForRepo Options

text \<open>
  The outcome of fetching one page: the page's \<^verbatim>\<open>data\<close> array, or the error the client
  raised. A paginated endpoint is the finite sequence of these outcomes, read lazily from
  the front.
\<close>

type_synonym 'a page = "error + 'a list"

record Octokit =
  issues_getMilestone :: "string \<Rightarrow> string \<Rightarrow> int \<Rightarrow> error + Milestone"
  issues_listMilestones :: "string \<Rightarrow> string \<Rightarrow> Milestone page list"
  repos_listReleases :: "string \<Rightarrow> string \<Rightarrow> Release page list"
  issues_listForRepo :: "Options \<Rightarrow> Issue page list"

section \<open>String and date primitives of the language\<close>

text \<open>\<^verbatim>\<open>s.startsWith(p)\<close>\<close>

definition startsWith :: "string \<Rightarrow> string \<Rightarrow> bool" where
  "startsWith s p = (take (length p) s = p)"

text \<open>
  \<^verbatim>\<open>s.replace(pat, rep)\<close> with a string pattern: the first occurrence of \<open>pat\<close>, searched from
  the left, is replaced; a string without an occurrence is returned as it is. The module
  calls it with the empty replacement only, so the dollar patterns of a replacement string
  play no part.
\<close>

fun replace :: "string \<Rightarrow> string \<Rightarrow> string \<Rightarrow> string" where
  "replace [] pat rep = (if pat = [] then rep else [])"
| "replace (c # cs) pat rep =
     (if startsWith (c # cs) pat then rep @ drop (length pat) (c # cs)
      else c # replace cs pat rep)"

text \<open>
  \<^verbatim>\<open>a < b\<close> on two Date objects compares their time values (milliseconds since the epoch);
  an invalid date has the time value NaN (\<open>None\<close>), and every comparison with NaN is false.
\<close>

fun date_lt :: "int option \<Rightarrow> int option \<Rightarrow> bool" where
  "date_lt (Some a) (Some b) = (a < b)"
| "date_lt _ _ = False"

section \<open>getMilestoneByTitle (lines 25-42)\<close>

text \<open>The inner loop, lines 35-39: return the first milestone of the page with that title.\<close>

fun scanMilestones :: "string \<Rightarrow> Milestone list \<Rightarrow> Milestone option" where
  "scanMilestones t [] = None"
| "scanMilestones t (milestone # milestones) =
     (if title milestone = t then Some milestone else scanMilestones t milestones)"

text \<open>The outer loop, lines 33-40, over the pages the iterator yields.\<close>

fun milestonePages ::
  "request \<Rightarrow> string \<Rightarrow> Milestone page list \<Rightarrow> request list
     \<Rightarrow> (error + Milestone option) \<times> request list" where
  "milestonePages req t [] log = (Inr None, log)"
| "milestonePages req t (response # responses) log =
     (case response of
        Inl e \<Rightarrow> (Inl e, log @ [req])
      | Inr milestones \<Rightarrow>
          (case scanMilestones t milestones of
             Some milestone \<Rightarrow> (Inr (Some milestone), log @ [req])
           | None \<Rightarrow> milestonePages req t responses (log @ [req])))"

definition getMilestoneByTitle ::
  "Octokit \<Rightarrow> string \<Rightarrow> string \<Rightarrow> string \<Rightarrow> request list
     \<Rightarrow> (error + Milestone option) \<times> request list" where
  "getMilestoneByTitle octokit owner repo t log =
     milestonePages (ListMilestones owner repo) t (issues_listMilestones octokit owner repo) log"

section \<open>getIssuesByMilestone (lines 57-119)\<close>

text \<open>Line 63: the series is the milestone's title with the literal removed.\<close>

definition seriesOf :: "string \<Rightarrow> string" where
  "seriesOf t = replace t ''Gutenberg '' ''''"

text \<open>
  Lines 75-77: \<^verbatim>\<open>releasesPage.data.find(release => release.name.startsWith(series))\<close>.
  The callback runs on the releases from the left until it answers true; on a release whose
  name is null, reading \<^verbatim>\<open>startsWith\<close> throws.
\<close>

fun findRelease :: "string \<Rightarrow> Release list \<Rightarrow> error + Release option" where
  "findRelease series [] = Inr None"
| "findRelease series (release # releases) =
     (case name release of
        Null \<Rightarrow> Inl TypeError
      | Value n \<Rightarrow>
          if startsWith n series then Inr (Some release) else findRelease series releases)"

text \<open>Lines 70-82: the loop over release pages, left at the first page with a match.\<close>

fun releasePages ::
  "request \<Rightarrow> string \<Rightarrow> Release page list \<Rightarrow> request list
     \<Rightarrow> (error + Release option) \<times> request list" where
  "releasePages req series [] log = (Inr None, log)"
| "releasePages req series (releasesPage # releases) log =
     (case releasesPage of
        Inl e \<Rightarrow> (Inl e, log @ [req])
      | Inr rs \<Rightarrow>
          (case findRelease series rs of
             Inl e \<Rightarrow> (Inl e, log @ [req])
           | Inr (Some latestReleaseInSeries) \<Rightarrow> (Inr (Some latestReleaseInSeries), log @ [req])
           | Inr None \<Rightarrow> releasePages req series releases (log @ [req])))"

text \<open>Lines 84-92: the options of the issue list.\<close>

definition issueOptions ::
  "string \<Rightarrow> string \<Rightarrow> int \<Rightarrow> IssueState option \<Rightarrow> Release option \<Rightarrow> Options" where
  "issueOptions owner repo milestone state latestReleaseInSeries =
     \<lparr> opt_owner = owner, opt_repo = repo, opt_milestone = milestone, opt_state = state,
       opt_since =
         (case latestReleaseInSeries of
            None \<Rightarrow> None
          | Some release \<Rightarrow> Some (published_at release)) \<rparr>"

text \<open>Lines 99-104: every page is pushed onto the end of \<^verbatim>\<open>pulls\<close>.\<close>

fun issuePages ::
  "request \<Rightarrow> Issue page list \<Rightarrow> Issue list \<Rightarrow> request list
     \<Rightarrow> (error + Issue list) \<times> request list" where
  "issuePages req [] pulls log = (Inr pulls, log)"
| "issuePages req (response # responses) pulls log =
     (case response of
        Inl e \<Rightarrow> (Inl e, log @ [req])
      | Inr issues \<Rightarrow> issuePages req responses (pulls @ issues) (log @ [req]))"

text \<open>
  Lines 112-114, the callback of the filter. \<open>Date\<close> stands for the language's
  \<^verbatim>\<open>new Date(string)\<close>: it gives the time value of the string, \<open>None\<close> for an invalid date.
  The parser is a parameter of the model, so what is proved holds whatever strings it
  accepts. A \<^verbatim>\<open>closed_at\<close> that is null or the empty string is falsy and ends the
  conjunction before any date is built.
\<close>

definition closedAfter :: "(string \<Rightarrow> int option) \<Rightarrow> int option \<Rightarrow> Issue \<Rightarrow> bool" where
  "closedAfter Date latestReleasePublishedAtTimestamp pull =
     (case closed_at pull of
        Null \<Rightarrow> False
      | Value c \<Rightarrow> c \<noteq> [] \<and> date_lt latestReleasePublishedAtTimestamp (Date c))"

text \<open>
  Lines 106-118: the filter runs when a release was found and its \<^verbatim>\<open>published_at\<close> is
  truthy, a non-empty string; otherwise \<^verbatim>\<open>pulls\<close> is returned as it is.
\<close>

definition postFilter ::
  "(string \<Rightarrow> int option) \<Rightarrow> Release option \<Rightarrow> Issue list \<Rightarrow> Issue list" where
  "postFilter Date latestReleaseInSeries pulls =
     (case latestReleaseInSeries of
        None \<Rightarrow> pulls
      | Some release \<Rightarrow>
          (case published_at release of
             Null \<Rightarrow> pulls
           | Value p \<Rightarrow>
               if p \<noteq> [] then filter (closedAfter Date (Date p)) pulls else pulls))"

text \<open>
  Lines 58-82: the value of \<^verbatim>\<open>latestReleaseInSeries\<close> when the loop over the release pages
  is left. The milestone is fetched first; when that fetch is rejected nothing else is sent.
\<close>

definition latestReleaseInSeries ::
  "Octokit \<Rightarrow> string \<Rightarrow> string \<Rightarrow> int \<Rightarrow> request list
     \<Rightarrow> (error + Release option) \<times> request list" where
  "latestReleaseInSeries octokit owner repo milestone log =
     (case issues_getMilestone octokit owner repo milestone of
        Inl e \<Rightarrow> (Inl e, log @ [GetMilestone owner repo milestone])
      | Inr milestoneResponse \<Rightarrow>
          releasePages (ListReleases owner repo) (seriesOf (title milestoneResponse))
            (repos_listReleases octokit owner repo)
            (log @ [GetMilestone owner repo milestone]))"

text \<open>The whole operation: lines 58-82, then the issue list and the filter.\<close>

definition getIssuesByMilestone ::
  "(string \<Rightarrow> int option) \<Rightarrow> Octokit \<Rightarrow> string \<Rightarrow> string \<Rightarrow> int \<Rightarrow> IssueState option
     \<Rightarrow> request list \<Rightarrow> (error + Issue list) \<times> request list" where
  "getIssuesByMilestone Date octokit owner repo milestone state log =
     (case latestReleaseInSeries octokit owner repo milestone log of
        (Inl e, log2) \<Rightarrow> (Inl e, log2)
      | (Inr latest, log2) \<Rightarrow>
          (let options = issueOptions owner repo milestone state latest in
           case issuePages (ListForRepo options) (issues_listForRepo octokit options) [] log2 of
             (Inl e, log3) \<Rightarrow> (Inl e, log3)
           | (Inr pulls, log3) \<Rightarrow> (Inr (postFilter Date latest pulls), log3)))"

section \<open>Vocabulary of the properties\<close>

text \<open>A release whose name is a string that starts with the series.\<close>

definition nameStartsWith :: "string \<Rightarrow> Release \<Rightarrow> bool" where
  "nameStartsWith series r =
     (case name r of Null \<Rightarrow> False | Value n \<Rightarrow> startsWith n series)"

text \<open>A release whose name is a string that does not start with the series.\<close>

definition nameOther :: "string \<Rightarrow> Release \<Rightarrow> bool" where
  "nameOther series r =
     (case name r of Null \<Rightarrow> False | Value n \<Rightarrow> \<not> startsWith n series)"

text \<open>
  The retained issues in the words of the specification: the closed-at timestamp is there,
  and it denotes a time strictly later than the time the publish timestamp denotes.
\<close>

definition closedStrictlyLater :: "(string \<Rightarrow> int option) \<Rightarrow> string \<Rightarrow> Issue \<Rightarrow> bool" where
  "closedStrictlyLater Date published issue =
     (case closed_at issue of
        Null \<Rightarrow> False
      | Value closed \<Rightarrow>
          closed \<noteq> [] \<and>
          (case (Date published, Date closed) of
             (Some t0, Some t) \<Rightarrow> t0 < t
           | _ \<Rightarrow> False))"

section \<open>Sample data\<close>

text \<open>
  A client over fixed data: pages of milestones, outcomes of the release pages and of the
  issue pages. A milestone is fetched by its number; an unknown number is rejected.
\<close>

definition sampleOctokit ::
  "Milestone list list \<Rightarrow> Release page list \<Rightarrow> Issue page list \<Rightarrow> Octokit" where
  "sampleOctokit ms rel iss =
     \<lparr> issues_getMilestone =
         (\<lambda>owner repo k.
            case List.find (\<lambda>m. number m = k) (concat ms) of
              Some m \<Rightarrow> Inr m
            | None \<Rightarrow> Inl (RequestError ''Not Found'')),
       issues_listMilestones = (\<lambda>owner repo. map Inr ms),
       repos_listReleases = (\<lambda>owner repo. rel),
       issues_listForRepo = (\<lambda>options. iss) \<rparr>"

text \<open>
  The time values of three timestamps, one second apart, as \<^verbatim>\<open>new Date\<close> gives them:
  milliseconds since 1970-01-01T00:00:00Z.
\<close>

definition sampleDate :: "string \<Rightarrow> int option" where
  "sampleDate s =
     (if s = ''2023-07-05T11:59:59Z'' then Some 1688558399000
      else if s = ''2023-07-05T12:00:00Z'' then Some 1688558400000
      else if s = ''2023-07-05T12:00:01Z'' then Some 1688558401000
      else None)"

definition milestone162 :: Milestone where
  "milestone162 = \<lparr> number = 7, title = ''Gutenberg 16.2'' \<rparr>"

definition milestone163 :: Milestone where
  "milestone163 = \<lparr> number = 8, title = ''Gutenberg 16.3'' \<rparr>"

definition milestone162again :: Milestone where
  "milestone162again = \<lparr> number = 9, title = ''Gutenberg 16.2'' \<rparr>"

definition release161 :: Release where
  "release161 = \<lparr> name = Value ''16.1.0'', published_at = Value ''2023-07-05T11:59:59Z'' \<rparr>"

definition release162 :: Release where
  "release162 = \<lparr> name = Value ''16.2.0'', published_at = Value ''2023-07-05T12:00:00Z'' \<rparr>"

definition draft162 :: Release where
  "draft162 = \<lparr> name = Value ''16.2.0-rc.1'', published_at = Null \<rparr>"

definition unnamedRelease :: Release where
  "unnamedRelease = \<lparr> name = Null, published_at = Value ''2023-07-05T12:00:00Z'' \<rparr>"

definition issueBefore :: Issue where
  "issueBefore = \<lparr> issue_number = 101, closed_at = Value ''2023-07-05T11:59:59Z'' \<rparr>"

definition issueAfter :: Issue where
  "issueAfter = \<lparr> issue_number = 102, closed_at = Value ''2023-07-05T12:00:01Z'' \<rparr>"

definition issueOpen :: Issue where
  "issueOpen = \<lparr> issue_number = 103, closed_at = Null \<rparr>"

section \<open>The loops in closed form\<close>

lemma scanMilestones_find: "scanMilestones t ms = List.find (\<lambda>m. title m = t) ms"
  by (induction ms) auto

lemma find_append:
  "List.find P (xs @ ys) =
     (case List.find P xs of None \<Rightarrow> List.find P ys | Some x \<Rightarrow> Some x)"
  by (induction xs) auto

lemma milestonePages_ok:
  "milestonePages req t (map Inr pss) log =
     (case List.find (\<lambda>m. title m = t) (concat pss) of
        None \<Rightarrow> (Inr None, log @ replicate (length pss) req)
      | Some m \<Rightarrow>
          (Inr (Some m),
           log @ replicate
             (Suc (length (takeWhile (\<lambda>p. List.find (\<lambda>m. title m = t) p = None) pss))) req))"
proof (induction pss arbitrary: log)
  case Nil
  then show ?case by simp
next
  case (Cons p pss)
  show ?case
  proof (cases "List.find (\<lambda>m. title m = t) p")
    case None
    then show ?thesis
      by (simp add: scanMilestones_find Cons.IH find_append replicate_app_Cons_same
            split: option.splits)
  next
    case (Some m)
    then show ?thesis
      by (simp add: scanMilestones_find find_append)
  qed
qed

lemma milestonePages_fst_log:
  "fst (milestonePages req t ps log) = fst (milestonePages req t ps log')"
  by (induction ps arbitrary: log log') (auto split: sum.splits option.splits)

lemma findRelease_match:
  "list_all (nameOther series) xs \<Longrightarrow> nameStartsWith series r \<Longrightarrow>
   findRelease series (xs @ r # ys) = Inr (Some r)"
  by (induction xs) (auto simp: nameOther_def nameStartsWith_def split: nullable.splits)

lemma findRelease_none:
  "list_all (nameOther series) xs \<Longrightarrow> findRelease series xs = Inr None"
  by (induction xs) (auto simp: nameOther_def split: nullable.splits)

lemma findRelease_null:
  "list_all (nameOther series) xs \<Longrightarrow> name r = Null \<Longrightarrow>
   findRelease series (xs @ r # ys) = Inl TypeError"
  by (induction xs) (auto simp: nameOther_def split: nullable.splits)

lemma releasePages_skip:
  "list_all (nameOther series) (concat pre) \<Longrightarrow>
   releasePages req series (map Inr pre @ rest) log =
   releasePages req series rest (log @ replicate (length pre) req)"
proof (induction pre arbitrary: log)
  case Nil
  then show ?case by simp
next
  case (Cons p pre)
  then show ?case
    by (simp add: findRelease_none replicate_app_Cons_same)
qed

lemma issuePages_ok:
  "issuePages req (map Inr pss) pulls log =
     (Inr (pulls @ concat pss), log @ replicate (length pss) req)"
  by (induction pss arbitrary: pulls log) (simp_all add: replicate_app_Cons_same)

lemma issuePages_skip:
  "issuePages req (map Inr pss @ rest) pulls log =
   issuePages req rest (pulls @ concat pss) (log @ replicate (length pss) req)"
  by (induction pss arbitrary: pulls log) (simp_all add: replicate_app_Cons_same)

lemma issuePages_log: "\<exists>k. snd (issuePages req ps pulls log) = log @ replicate k req"
proof (induction ps arbitrary: pulls log)
  case Nil
  show ?case by (rule exI [of _ 0]) simp
next
  case (Cons p ps)
  show ?case
  proof (cases p)
    case (Inl e)
    then show ?thesis by (intro exI [of _ 1]) simp
  next
    case (Inr issues)
    from Cons.IH [of "pulls @ issues" "log @ [req]"] obtain k
      where "snd (issuePages req ps (pulls @ issues) (log @ [req])) =
             (log @ [req]) @ replicate k req"
      by blast
    with Inr show ?thesis
      by (intro exI [of _ "Suc k"]) (simp add: replicate_app_Cons_same)
  qed
qed

lemma startsWith_prefix: "startsWith s p = prefix p s"
  by (auto simp: startsWith_def prefix_def) (metis append_eq_conv_conj)

lemma replace_prefix: "replace (pat @ s) pat rep = rep @ s"
proof (cases "pat @ s")
  case Nil
  then show ?thesis by simp
next
  case (Cons c cs)
  have "startsWith (pat @ s) pat" by (simp add: startsWith_def)
  then have "replace (pat @ s) pat rep = rep @ drop (length pat) (pat @ s)"
    unfolding Cons by simp
  then show ?thesis by simp
qed

lemma replace_absent: "\<not> sublist pat s \<Longrightarrow> replace s pat rep = s"
proof (induction s)
  case Nil
  then show ?case by auto
next
  case (Cons c cs)
  then show ?case
    by (auto simp: startsWith_prefix sublist_Cons_right)
qed

lemma replace_first:
  "\<not> sublist pat (u @ butlast pat) \<Longrightarrow> replace (u @ pat @ v) pat rep = u @ rep @ v"
proof (induction u)
  case Nil
  then show ?case using replace_prefix [of pat v rep] by simp
next
  case (Cons c u)
  have n1: "\<not> prefix pat ((c # u) @ butlast pat)"
    using Cons.prems by (meson prefix_imp_sublist)
  have "\<not> prefix pat ((c # u) @ pat @ v)"
  proof
    assume p: "prefix pat ((c # u) @ pat @ v)"
    have ne: "pat \<noteq> []" using n1 by auto
    then have split: "(c # u) @ pat @ v = ((c # u) @ butlast pat) @ (last pat # v)"
      by (simp add: append_butlast_last_id [symmetric])
    have q: "prefix ((c # u) @ butlast pat) ((c # u) @ pat @ v)"
      unfolding split by (rule prefixI) simp
    have "length pat \<le> length ((c # u) @ butlast pat)" using ne by simp
    with p q have "prefix pat ((c # u) @ butlast pat)"
      by (rule prefix_length_prefix)
    with n1 show False by contradiction
  qed
  moreover have "\<not> sublist pat (u @ butlast pat)"
    using Cons.prems by (simp add: sublist_Cons_right)
  ultimately show ?case using Cons.IH by (simp add: startsWith_prefix)
qed

lemma find_distinct:
  "distinct (map f xs) \<Longrightarrow> m \<in> set xs \<Longrightarrow> List.find (\<lambda>x. f x = f m) xs = Some m"
  by (induction xs) (auto simp: image_iff)

lemma find_first:
  "list_all (\<lambda>x. \<not> P x) xs \<Longrightarrow> P m \<Longrightarrow> List.find P (xs @ m # ys) = Some m"
  by (induction xs) auto

lemma releasePages_match:
  assumes "list_all (nameOther series) (concat pre @ xs)" and "nameStartsWith series r"
  shows "releasePages req series (map Inr pre @ Inr (xs @ r # ys) # rest) log =
           (Inr (Some r), log @ replicate (Suc (length pre)) req)"
proof -
  from assms have "findRelease series (xs @ r # ys) = Inr (Some r)"
    by (intro findRelease_match) simp_all
  moreover from assms have "list_all (nameOther series) (concat pre)" by simp
  ultimately show ?thesis
    by (simp add: releasePages_skip replicate_app_Cons_same)
qed

lemma releasePages_none:
  assumes "list_all (nameOther series) (concat pss)"
  shows "releasePages req series (map Inr pss) log = (Inr None, log @ replicate (length pss) req)"
  using releasePages_skip [OF assms, of req "[]" log] by simp

lemma releasePages_null:
  assumes "list_all (nameOther series) (concat pre @ xs)" and "name r = Null"
  shows "releasePages req series (map Inr pre @ Inr (xs @ r # ys) # rest) log =
           (Inl TypeError, log @ replicate (Suc (length pre)) req)"
proof -
  from assms have "findRelease series (xs @ r # ys) = Inl TypeError"
    by (intro findRelease_null) simp_all
  moreover from assms have "list_all (nameOther series) (concat pre)" by simp
  ultimately show ?thesis
    by (simp add: releasePages_skip replicate_app_Cons_same)
qed

lemma releasePages_rejected:
  assumes "list_all (nameOther series) (concat pre)"
  shows "releasePages req series (map Inr pre @ Inl e # rest) log =
           (Inl e, log @ replicate (Suc (length pre)) req)"
  using assms by (simp add: releasePages_skip replicate_app_Cons_same)

lemma issuePages_rejected:
  "issuePages req (map Inr pss @ Inl e # rest) pulls log =
     (Inl e, log @ replicate (Suc (length pss)) req)"
  by (simp add: issuePages_skip replicate_app_Cons_same)

lemma postFilter_None: "postFilter Date None pulls = pulls"
  by (simp add: postFilter_def)

lemma closedAfter_spec: "closedAfter Date (Date p) = closedStrictlyLater Date p"
proof
  fix i
  show "closedAfter Date (Date p) i = closedStrictlyLater Date p i"
    by (cases "Date p"; cases "closed_at i")
       (auto simp: closedAfter_def closedStrictlyLater_def split: option.splits)
qed

section \<open>Series derivation\<close>

text \<open>
  Claim C3, as the code has it. Line 63 calls \<^verbatim>\<open>title.replace('Gutenberg ', '')\<close>, which
  removes the first occurrence of the literal wherever it stands. For every title
  \<open>''Gutenberg '' @ s\<close> the series is \<open>s\<close>; a title in which the literal occurs nowhere is
  its own series; and a title \<open>u @ ''Gutenberg '' @ v\<close> whose first occurrence of the literal
  is the one after \<open>u\<close> has the series \<open>u @ v\<close>.
\<close>

theorem C3_series_removes_first_occurrence:
  "seriesOf (''Gutenberg '' @ s) = s \<and>
   (\<not> sublist ''Gutenberg '' t \<longrightarrow> seriesOf t = t) \<and>
   (\<not> sublist ''Gutenberg '' (u @ butlast ''Gutenberg '') \<longrightarrow>
      seriesOf (u @ ''Gutenberg '' @ v) = u @ v)"
proof (intro conjI impI)
  show "seriesOf (''Gutenberg '' @ s) = s"
    unfolding seriesOf_def using replace_prefix [of "''Gutenberg ''" s "[]"] by simp
  show "seriesOf t = t" if "\<not> sublist ''Gutenberg '' t"
    unfolding seriesOf_def using that by (rule replace_absent)
  show "seriesOf (u @ ''Gutenberg '' @ v) = u @ v"
    if "\<not> sublist ''Gutenberg '' (u @ butlast ''Gutenberg '')"
    unfolding seriesOf_def using replace_first [OF that, of v "[]"] by simp
qed

text \<open>
  The three parts at concrete titles: \<open>''Gutenberg 16.2''\<close> gives \<open>''16.2''\<close>, \<open>''16.2''\<close>
  stays, and \<open>''WP Gutenberg 16.2''\<close> gives \<open>''WP 16.2''\<close>.
\<close>

theorem C3_series_witness:
  "seriesOf ''Gutenberg 16.2'' = ''16.2'' \<and>
   \<not> sublist ''Gutenberg '' ''16.2'' \<and> seriesOf ''16.2'' = ''16.2'' \<and>
   \<not> sublist ''Gutenberg '' (''WP '' @ butlast ''Gutenberg '') \<and>
   seriesOf ''WP Gutenberg 16.2'' = ''WP 16.2''"
  using C3_series_removes_first_occurrence [of "''16.2''" "''16.2''" "''WP ''" "''16.2''"]
  by (simp add: sublist_Cons_right)

text \<open>
  Claim C3 as the specification words it fails: the title \<open>''WP Gutenberg 16.2''\<close> does not
  start with the literal, and yet its series is not the title.
\<close>

theorem C3_prefix_absent_counterexample:
  "\<not> startsWith ''WP Gutenberg 16.2'' ''Gutenberg '' \<and>
   seriesOf ''WP Gutenberg 16.2'' = ''WP 16.2'' \<and>
   seriesOf ''WP Gutenberg 16.2'' \<noteq> ''WP Gutenberg 16.2''"
  by (simp add: seriesOf_def startsWith_def)

section \<open>Accumulating the issue pages\<close>

text \<open>
  Claim C6. The loop of lines 101-104 over pages that all arrive leaves in \<^verbatim>\<open>pulls\<close> the
  concatenation of the pages, in the order fetched and with each page's order kept, and
  it has sent one request for each page.
\<close>

theorem C6_pagination_is_concatenation:
  "issuePages req (map Inr pages) [] log =
     (Inr (concat pages), log @ replicate (length pages) req)"
proof -
  have "issuePages req (map Inr pages) pulls log =
          (Inr (pulls @ concat pages), log @ replicate (length pages) req)" for pulls
    by (induction pages arbitrary: pulls log) (simp_all add: replicate_app_Cons_same)
  from this [of "[]"] show ?thesis by simp
qed

text \<open>Three pages of two issues give the six issues in order.\<close>

theorem C6_three_pages_of_two:
  "fst (issuePages (ListForRepo (issueOptions ''WordPress'' ''gutenberg'' 7 None None))
          (map Inr [[issueBefore, issueAfter], [issueOpen, issueBefore], [issueAfter, issueOpen]])
          [] [])
     = Inr [issueBefore, issueAfter, issueOpen, issueBefore, issueAfter, issueOpen]"
  using C6_pagination_is_concatenation
    [of "ListForRepo (issueOptions ''WordPress'' ''gutenberg'' 7 None None)"
        "[[issueBefore, issueAfter], [issueOpen, issueBefore], [issueAfter, issueOpen]]" "[]"]
  by simp

section \<open>Milestone lookup\<close>

text \<open>
  Claim C2. Let the milestone pages all arrive and let the titles of their milestones be
  pairwise different. Then looking up the title of a milestone of some page returns that
  very milestone, and looking up a title that no page has returns undefined (\<open>None\<close>)
  after one request for each page.
\<close>

theorem C2_lookup_unique_titles:
  assumes pages: "issues_listMilestones octokit owner repo = map Inr pss"
    and uniq: "distinct (map title (concat pss))"
  shows "(m \<in> set (concat pss) \<longrightarrow>
            fst (getMilestoneByTitle octokit owner repo (title m) log) = Inr (Some m)) \<and>
         (t \<notin> title ` set (concat pss) \<longrightarrow>
            getMilestoneByTitle octokit owner repo t log =
              (Inr None, log @ replicate (length pss) (ListMilestones owner repo)))"
proof (intro conjI impI)
  assume "m \<in> set (concat pss)"
  with uniq have "List.find (\<lambda>x. title x = title m) (concat pss) = Some m"
    by (rule find_distinct)
  then show "fst (getMilestoneByTitle octokit owner repo (title m) log) = Inr (Some m)"
    by (simp add: getMilestoneByTitle_def pages milestonePages_ok)
next
  assume "t \<notin> title ` set (concat pss)"
  then have "List.find (\<lambda>x. title x = t) (concat pss) = None"
    by (auto simp: find_None_iff)
  then show "getMilestoneByTitle octokit owner repo t log =
      (Inr None, log @ replicate (length pss) (ListMilestones owner repo))"
    by (simp add: getMilestoneByTitle_def pages milestonePages_ok)
qed

text \<open>Two pages of one milestone each: the second is found, an unknown title is not.\<close>

theorem C2_lookup_witness:
  "issues_listMilestones (sampleOctokit [[milestone162], [milestone163]] [] [])
      ''WordPress'' ''gutenberg'' = map Inr [[milestone162], [milestone163]] \<and>
   distinct (map title (concat [[milestone162], [milestone163]])) \<and>
   milestone163 \<in> set (concat [[milestone162], [milestone163]]) \<and>
   fst (getMilestoneByTitle (sampleOctokit [[milestone162], [milestone163]] [] [])
          ''WordPress'' ''gutenberg'' ''Gutenberg 16.3'' []) = Inr (Some milestone163) \<and>
   ''Gutenberg 17.0'' \<notin> title ` set (concat [[milestone162], [milestone163]]) \<and>
   getMilestoneByTitle (sampleOctokit [[milestone162], [milestone163]] [] [])
      ''WordPress'' ''gutenberg'' ''Gutenberg 17.0'' [] =
     (Inr None, [ListMilestones ''WordPress'' ''gutenberg'', ListMilestones ''WordPress'' ''gutenberg''])"
  using C2_lookup_unique_titles
    [of "sampleOctokit [[milestone162], [milestone163]] [] []" "''WordPress''" "''gutenberg''"
        "[[milestone162], [milestone163]]" milestone163 "[]" "''Gutenberg 17.0''"]
  by (simp add: sampleOctokit_def milestone162_def milestone163_def)

text \<open>
  Claim C8. Let the milestone pages all arrive and let \<open>m\<close> be the first milestone, in the
  order of the concatenated pages, that has the title \<open>t\<close>; other milestones with that
  title may follow. Then the lookup returns \<open>m\<close>, and a second run started after the first
  returns what the first did.
\<close>

theorem C8_lookup_first_of_duplicates:
  assumes pages: "issues_listMilestones octokit owner repo = map Inr pss"
    and split: "concat pss = xs @ m # ys"
    and first: "list_all (\<lambda>x. title x \<noteq> t) xs"
    and hit: "title m = t"
  shows "fst (getMilestoneByTitle octokit owner repo t log) = Inr (Some m) \<and>
         fst (getMilestoneByTitle octokit owner repo t
                (snd (getMilestoneByTitle octokit owner repo t log))) =
         fst (getMilestoneByTitle octokit owner repo t log)"
proof
  have "List.find (\<lambda>x. title x = t) (concat pss) = Some m"
    unfolding split using first hit by (intro find_first) simp_all
  then show "fst (getMilestoneByTitle octokit owner repo t log) = Inr (Some m)"
    by (simp add: getMilestoneByTitle_def pages milestonePages_ok)
  show "fst (getMilestoneByTitle octokit owner repo t
                (snd (getMilestoneByTitle octokit owner repo t log))) =
         fst (getMilestoneByTitle octokit owner repo t log)"
    unfolding getMilestoneByTitle_def by (rule milestonePages_fst_log)
qed

text \<open>Two milestones titled alike on different pages: the earlier one is returned.\<close>

theorem C8_lookup_witness:
  "issues_listMilestones (sampleOctokit [[milestone163, milestone162], [milestone162again]] [] [])
      ''WordPress'' ''gutenberg'' = map Inr [[milestone163, milestone162], [milestone162again]] \<and>
   concat [[milestone163, milestone162], [milestone162again]] =
     [milestone163] @ milestone162 # [milestone162again] \<and>
   list_all (\<lambda>x. title x \<noteq> ''Gutenberg 16.2'') [milestone163] \<and>
   title milestone162 = ''Gutenberg 16.2'' \<and> title milestone162again = ''Gutenberg 16.2'' \<and>
   milestone162again \<noteq> milestone162 \<and>
   fst (getMilestoneByTitle (sampleOctokit [[milestone163, milestone162], [milestone162again]] [] [])
          ''WordPress'' ''gutenberg'' ''Gutenberg 16.2'' []) = Inr (Some milestone162)"
  using C8_lookup_first_of_duplicates
    [of "sampleOctokit [[milestone163, milestone162], [milestone162again]] [] []"
        "''WordPress''" "''gutenberg''" "[[milestone163, milestone162], [milestone162again]]"
        "[milestone163]" milestone162 "[milestone162again]" "''Gutenberg 16.2''" "[]"]
  by (simp add: sampleOctokit_def milestone162_def milestone163_def milestone162again_def)

section \<open>The latest release in the series\<close>

text \<open>
  Claim C4. Let the milestone be fetched, with title \<open>title m\<close>. If the release pages
  arrive up to the page that holds \<open>r\<close>, every release before \<open>r\<close> in the order of the
  concatenated pages has a name that does not start with the series, and the name of \<open>r\<close>
  does, then \<open>r\<close> is the latest release, and the scan has sent one request for each page up to
  the page of \<open>r\<close> and none for the pages after it, whatever they hold. If all release pages
  arrive and no name starts with the series, the latest release is undefined (\<open>None\<close>) after
  one request for each page, and it stays so: the rest of the operation is the accumulation
  of the issue pages queried without \<^verbatim>\<open>since\<close>, returned as accumulated.
\<close>

theorem C4_latest_release_is_first_match:
  assumes ms: "issues_getMilestone octokit owner repo milestone = Inr m"
  shows "(repos_listReleases octokit owner repo = map Inr pre @ Inr (xs @ r # ys) # rest \<and>
          list_all (nameOther (seriesOf (title m))) (concat pre @ xs) \<and>
          nameStartsWith (seriesOf (title m)) r \<longrightarrow>
            latestReleaseInSeries octokit owner repo milestone log =
              (Inr (Some r),
               log @ GetMilestone owner repo milestone #
                 replicate (Suc (length pre)) (ListReleases owner repo))) \<and>
         (repos_listReleases octokit owner repo = map Inr pss \<and>
          list_all (nameOther (seriesOf (title m))) (concat pss) \<longrightarrow>
            latestReleaseInSeries octokit owner repo milestone log =
              (Inr None,
               log @ GetMilestone owner repo milestone #
                 replicate (length pss) (ListReleases owner repo)) \<and>
            getIssuesByMilestone Date octokit owner repo milestone state log =
              issuePages (ListForRepo (issueOptions owner repo milestone state None))
                (issues_listForRepo octokit (issueOptions owner repo milestone state None)) []
                (log @ GetMilestone owner repo milestone #
                   replicate (length pss) (ListReleases owner repo)))"
proof (intro conjI impI; (elim conjE)?)
  assume "repos_listReleases octokit owner repo = map Inr pre @ Inr (xs @ r # ys) # rest"
    and "list_all (nameOther (seriesOf (title m))) (concat pre @ xs)"
    and "nameStartsWith (seriesOf (title m)) r"
  then show "latestReleaseInSeries octokit owner repo milestone log =
      (Inr (Some r),
       log @ GetMilestone owner repo milestone # replicate (Suc (length pre)) (ListReleases owner repo))"
    unfolding latestReleaseInSeries_def by (simp add: ms releasePages_match)
next
  assume pages: "repos_listReleases octokit owner repo = map Inr pss"
    and none: "list_all (nameOther (seriesOf (title m))) (concat pss)"
  then show scan: "latestReleaseInSeries octokit owner repo milestone log =
      (Inr None, log @ GetMilestone owner repo milestone # replicate (length pss) (ListReleases owner repo))"
    unfolding latestReleaseInSeries_def by (simp add: ms releasePages_none)
  show "getIssuesByMilestone Date octokit owner repo milestone state log =
      issuePages (ListForRepo (issueOptions owner repo milestone state None))
        (issues_listForRepo octokit (issueOptions owner repo milestone state None)) []
        (log @ GetMilestone owner repo milestone # replicate (length pss) (ListReleases owner repo))"
    unfolding getIssuesByMilestone_def scan
    by (simp add: Let_def postFilter_None split: prod.splits sum.splits)
qed

text \<open>
  A match on the second page with a failing third page behind it, which is never requested;
  and a milestone whose series no release name starts with.
\<close>

theorem C4_latest_release_witness:
  "issues_getMilestone
     (sampleOctokit [[milestone162]]
        [Inr [release161], Inr [release162, draft162], Inl (RequestError ''Bad Gateway'')] [])
     ''WordPress'' ''gutenberg'' 7 = Inr milestone162 \<and>
   repos_listReleases
     (sampleOctokit [[milestone162]]
        [Inr [release161], Inr [release162, draft162], Inl (RequestError ''Bad Gateway'')] [])
     ''WordPress'' ''gutenberg'' =
     map Inr [[release161]] @ Inr ([] @ release162 # [draft162]) # [Inl (RequestError ''Bad Gateway'')] \<and>
   list_all (nameOther (seriesOf (title milestone162))) (concat [[release161]] @ []) \<and>
   nameStartsWith (seriesOf (title milestone162)) release162 \<and>
   latestReleaseInSeries
     (sampleOctokit [[milestone162]]
        [Inr [release161], Inr [release162, draft162], Inl (RequestError ''Bad Gateway'')] [])
     ''WordPress'' ''gutenberg'' 7 [] =
     (Inr (Some release162),
      [GetMilestone ''WordPress'' ''gutenberg'' 7, ListReleases ''WordPress'' ''gutenberg'',
       ListReleases ''WordPress'' ''gutenberg'']) \<and>
   issues_getMilestone
     (sampleOctokit [[milestone163]] [Inr [release161], Inr [release162]] [Inr [issueOpen]])
     ''WordPress'' ''gutenberg'' 8 = Inr milestone163 \<and>
   repos_listReleases
     (sampleOctokit [[milestone163]] [Inr [release161], Inr [release162]] [Inr [issueOpen]])
     ''WordPress'' ''gutenberg'' = map Inr [[release161], [release162]] \<and>
   list_all (nameOther (seriesOf (title milestone163))) (concat [[release161], [release162]]) \<and>
   latestReleaseInSeries
     (sampleOctokit [[milestone163]] [Inr [release161], Inr [release162]] [Inr [issueOpen]])
     ''WordPress'' ''gutenberg'' 8 [] =
     (Inr None,
      [GetMilestone ''WordPress'' ''gutenberg'' 8, ListReleases ''WordPress'' ''gutenberg'',
       ListReleases ''WordPress'' ''gutenberg'']) \<and>
   fst (getIssuesByMilestone sampleDate
     (sampleOctokit [[milestone163]] [Inr [release161], Inr [release162]] [Inr [issueOpen]])
     ''WordPress'' ''gutenberg'' 8 None []) = Inr [issueOpen]"
  using
    C4_latest_release_is_first_match
      [of "sampleOctokit [[milestone162]]
             [Inr [release161], Inr [release162, draft162], Inl (RequestError ''Bad Gateway'')] []"
          "''WordPress''" "''gutenberg''" 7 milestone162
          "[[release161]]" "[]" release162 "[draft162]" "[Inl (RequestError ''Bad Gateway'')]" "[]"]
    C4_latest_release_is_first_match
      [of "sampleOctokit [[milestone163]] [Inr [release161], Inr [release162]] [Inr [issueOpen]]"
          "''WordPress''" "''gutenberg''" 8 milestone163
          _ _ _ _ _ "[]" "[[release161], [release162]]" sampleDate None]
  by (simp add: sampleOctokit_def milestone162_def milestone163_def release161_def
        release162_def draft162_def seriesOf_def startsWith_def nameOther_def nameStartsWith_def)

text \<open>
  Claim C10, as the code has it. \<^verbatim>\<open>find\<close> runs the callback on the releases of a page from
  the left and stops at the first match, so the names read are those of the releases up to
  and including the first match. Let the milestone be fetched and the release pages arrive
  up to the page that holds \<open>r\<close>; if every release before \<open>r\<close> in the order of the
  concatenated pages has a name that does not start with the series and the name of \<open>r\<close> is
  null, the operation throws a TypeError: it neither skips \<open>r\<close> nor returns a result, and
  no issue page is requested.
\<close>

theorem C10_null_name_before_match_throws:
  assumes ms: "issues_getMilestone octokit owner repo milestone = Inr m"
    and pages: "repos_listReleases octokit owner repo = map Inr pre @ Inr (xs @ r # ys) # rest"
    and before: "list_all (nameOther (seriesOf (title m))) (concat pre @ xs)"
    and null: "name r = Null"
  shows "getIssuesByMilestone Date octokit owner repo milestone state log =
           (Inl TypeError,
            log @ GetMilestone owner repo milestone #
              replicate (Suc (length pre)) (ListReleases owner repo))"
  using before null
  by (simp add: getIssuesByMilestone_def latestReleaseInSeries_def ms pages releasePages_null)

text \<open>An unnamed release ahead of the match on the second page.\<close>

theorem C10_null_name_witness:
  "issues_getMilestone
     (sampleOctokit [[milestone162]] [Inr [release161], Inr [unnamedRelease, release162]]
        [Inr [issueAfter]])
     ''WordPress'' ''gutenberg'' 7 = Inr milestone162 \<and>
   repos_listReleases
     (sampleOctokit [[milestone162]] [Inr [release161], Inr [unnamedRelease, release162]]
        [Inr [issueAfter]])
     ''WordPress'' ''gutenberg'' =
     map Inr [[release161]] @ Inr ([] @ unnamedRelease # [release162]) # [] \<and>
   list_all (nameOther (seriesOf (title milestone162))) (concat [[release161]] @ []) \<and>
   name unnamedRelease = Null \<and>
   getIssuesByMilestone sampleDate
     (sampleOctokit [[milestone162]] [Inr [release161], Inr [unnamedRelease, release162]]
        [Inr [issueAfter]])
     ''WordPress'' ''gutenberg'' 7 None [] =
     (Inl TypeError,
      [GetMilestone ''WordPress'' ''gutenberg'' 7, ListReleases ''WordPress'' ''gutenberg'',
       ListReleases ''WordPress'' ''gutenberg''])"
  using C10_null_name_before_match_throws
    [where octokit = "sampleOctokit [[milestone162]]
           [Inr [release161], Inr [unnamedRelease, release162]] [Inr [issueAfter]]"
       and owner = "''WordPress''" and repo = "''gutenberg''" and milestone = 7
       and m = milestone162 and pre = "[[release161]]" and xs = "[]" and r = unnamedRelease
       and ys = "[release162]" and rest = "[]" and state = None and Date = sampleDate
       and log = "[]"]
  by (simp add: sampleOctokit_def milestone162_def release161_def unnamedRelease_def seriesOf_def startsWith_def nameOther_def)

text \<open>
  Claim C10 as worded fails in its first half: here a release with a null name stands in
  a scanned page, behind the match, and the operation returns; the name of that release
  is never read.
\<close>

theorem C10_after_match_counterexample:
  "repos_listReleases
     (sampleOctokit [[milestone162]] [Inr [release162, unnamedRelease]] [Inr [issueAfter]])
     ''WordPress'' ''gutenberg'' = [Inr [release162, unnamedRelease]] \<and>
   name unnamedRelease = Null \<and>
   getIssuesByMilestone sampleDate
     (sampleOctokit [[milestone162]] [Inr [release162, unnamedRelease]] [Inr [issueAfter]])
     ''WordPress'' ''gutenberg'' 7 None [] =
     (Inr [issueAfter],
      [GetMilestone ''WordPress'' ''gutenberg'' 7, ListReleases ''WordPress'' ''gutenberg'',
       ListForRepo (issueOptions ''WordPress'' ''gutenberg'' 7 None (Some release162))])"
  by (simp add: sampleOctokit_def sampleDate_def milestone162_def release162_def
        unnamedRelease_def issueAfter_def seriesOf_def startsWith_def latestReleaseInSeries_def
        getIssuesByMilestone_def issueOptions_def postFilter_def closedAfter_def)

section \<open>The issue query\<close>

text \<open>
  Claim C5. When the scan of the releases has ended without an error, with \<open>latest\<close> the
  latest release or \<open>None\<close>, the operation reads the issue pages of the query
  \<open>issueOptions owner repo milestone state latest\<close>, and every request it sends after the
  scan is for that query. The query has the given owner, repository, milestone and state;
  it has the key \<^verbatim>\<open>since\<close> exactly when a release was found, and then the value is that
  release's \<^verbatim>\<open>published_at\<close>.
\<close>

theorem C5_issue_query:
  assumes scan: "latestReleaseInSeries octokit owner repo milestone log = (Inr latest, log2)"
  shows "getIssuesByMilestone Date octokit owner repo milestone state log =
           (case issuePages (ListForRepo (issueOptions owner repo milestone state latest))
                   (issues_listForRepo octokit (issueOptions owner repo milestone state latest))
                   [] log2 of
              (Inl e, log3) \<Rightarrow> (Inl e, log3)
            | (Inr pulls, log3) \<Rightarrow> (Inr (postFilter Date latest pulls), log3)) \<and>
         (\<exists>k. snd (getIssuesByMilestone Date octokit owner repo milestone state log) =
                log2 @ replicate k (ListForRepo (issueOptions owner repo milestone state latest))) \<and>
         opt_owner (issueOptions owner repo milestone state latest) = owner \<and>
         opt_repo (issueOptions owner repo milestone state latest) = repo \<and>
         opt_milestone (issueOptions owner repo milestone state latest) = milestone \<and>
         opt_state (issueOptions owner repo milestone state latest) = state \<and>
         (opt_since (issueOptions owner repo milestone state latest) \<noteq> None
            \<longleftrightarrow> latest \<noteq> None) \<and>
         (\<forall>r. latest = Some r \<longrightarrow>
            opt_since (issueOptions owner repo milestone state latest) = Some (published_at r))"
proof -
  let ?q = "issueOptions owner repo milestone state latest"
  let ?pages = "issuePages (ListForRepo ?q) (issues_listForRepo octokit ?q) [] log2"
  have run: "getIssuesByMilestone Date octokit owner repo milestone state log =
      (case ?pages of
         (Inl e, log3) \<Rightarrow> (Inl e, log3)
       | (Inr pulls, log3) \<Rightarrow> (Inr (postFilter Date latest pulls), log3))"
    unfolding getIssuesByMilestone_def scan by (simp add: Let_def)
  obtain k where k: "snd ?pages = log2 @ replicate k (ListForRepo ?q)"
    using issuePages_log by blast
  have "snd (getIssuesByMilestone Date octokit owner repo milestone state log) = snd ?pages"
    unfolding run by (simp split: prod.splits sum.splits)
  with k have sent: "\<exists>k. snd (getIssuesByMilestone Date octokit owner repo milestone state log) =
      log2 @ replicate k (ListForRepo ?q)"
    by auto
  have since: "(opt_since ?q \<noteq> None \<longleftrightarrow> latest \<noteq> None) \<and>
      (\<forall>r. latest = Some r \<longrightarrow> opt_since ?q = Some (published_at r))"
    by (cases latest) (simp_all add: issueOptions_def)
  have fields: "opt_owner ?q = owner \<and> opt_repo ?q = repo \<and> opt_milestone ?q = milestone \<and>
      opt_state ?q = state"
    by (simp add: issueOptions_def)
  from run sent since fields show ?thesis by blast
qed

text \<open>A found release: the one issue request carries its publish timestamp as \<^verbatim>\<open>since\<close>.\<close>

theorem C5_issue_query_witness:
  "latestReleaseInSeries
     (sampleOctokit [[milestone162]] [Inr [release161, release162]] [Inr [issueBefore, issueAfter]])
     ''WordPress'' ''gutenberg'' 7 [] =
     (Inr (Some release162),
      [GetMilestone ''WordPress'' ''gutenberg'' 7, ListReleases ''WordPress'' ''gutenberg'']) \<and>
   snd (getIssuesByMilestone sampleDate
     (sampleOctokit [[milestone162]] [Inr [release161, release162]] [Inr [issueBefore, issueAfter]])
     ''WordPress'' ''gutenberg'' 7 (Some StateClosed) []) =
     [GetMilestone ''WordPress'' ''gutenberg'' 7, ListReleases ''WordPress'' ''gutenberg'',
      ListForRepo
        \<lparr> opt_owner = ''WordPress'', opt_repo = ''gutenberg'', opt_milestone = 7,
          opt_state = Some StateClosed, opt_since = Some (Value ''2023-07-05T12:00:00Z'') \<rparr>] \<and>
   opt_since (issueOptions ''WordPress'' ''gutenberg'' 7 (Some StateClosed) (Some release162)) =
     Some (published_at release162)"
  using C5_issue_query
    [of "sampleOctokit [[milestone162]] [Inr [release161, release162]]
           [Inr [issueBefore, issueAfter]]"
        "''WordPress''" "''gutenberg''" 7 "[]" "Some release162"
        "[GetMilestone ''WordPress'' ''gutenberg'' 7, ListReleases ''WordPress'' ''gutenberg'']"
        sampleDate "Some StateClosed"]
  by (simp add: sampleOctokit_def milestone162_def release161_def release162_def seriesOf_def startsWith_def latestReleaseInSeries_def
        getIssuesByMilestone_def issueOptions_def)

section \<open>The filter on the closing time\<close>

text \<open>
  Claim C1, as the code has it. Let the milestone be fetched and the issue pages all
  arrive. If the first release whose name starts with the series is \<open>r\<close> (the releases
  before it have names that do not start with the series) and its \<^verbatim>\<open>published_at\<close> is a
  non-empty string \<open>p\<close>, the operation returns the accumulated issues that are closed
  strictly later than \<open>p\<close>, in their order. If all release pages arrive and no name starts
  with the series, it returns the accumulated issues as they are.
\<close>

theorem C1_post_filter_gated_on_publish_time:
  assumes ms: "issues_getMilestone octokit owner repo milestone = Inr m"
  shows "(repos_listReleases octokit owner repo = map Inr pre @ Inr (xs @ r # ys) # rest \<and>
          list_all (nameOther (seriesOf (title m))) (concat pre @ xs) \<and>
          nameStartsWith (seriesOf (title m)) r \<and>
          published_at r = Value p \<and> p \<noteq> [] \<and>
          issues_listForRepo octokit (issueOptions owner repo milestone state (Some r)) =
            map Inr pss \<longrightarrow>
            fst (getIssuesByMilestone Date octokit owner repo milestone state log) =
              Inr (filter (closedStrictlyLater Date p) (concat pss))) \<and>
         (repos_listReleases octokit owner repo = map Inr rss \<and>
          list_all (nameOther (seriesOf (title m))) (concat rss) \<and>
          issues_listForRepo octokit (issueOptions owner repo milestone state None) =
            map Inr pss' \<longrightarrow>
            fst (getIssuesByMilestone Date octokit owner repo milestone state log) =
              Inr (concat pss'))"
proof (intro conjI impI; elim conjE)
  assume pages: "repos_listReleases octokit owner repo = map Inr pre @ Inr (xs @ r # ys) # rest"
    and before: "list_all (nameOther (seriesOf (title m))) (concat pre @ xs)"
    and hit: "nameStartsWith (seriesOf (title m)) r"
    and pub: "published_at r = Value p" "p \<noteq> []"
    and issues: "issues_listForRepo octokit (issueOptions owner repo milestone state (Some r)) =
      map Inr pss"
  have "latestReleaseInSeries octokit owner repo milestone log =
      (Inr (Some r),
       log @ GetMilestone owner repo milestone #
         replicate (Suc (length pre)) (ListReleases owner repo))"
    unfolding latestReleaseInSeries_def using before hit
    by (simp add: ms pages releasePages_match)
  moreover have "postFilter Date (Some r) pulls = filter (closedStrictlyLater Date p) pulls"
    for pulls
    by (simp add: postFilter_def pub closedAfter_spec)
  ultimately show "fst (getIssuesByMilestone Date octokit owner repo milestone state log) =
      Inr (filter (closedStrictlyLater Date p) (concat pss))"
    by (simp add: getIssuesByMilestone_def Let_def issues issuePages_ok)
next
  assume pages: "repos_listReleases octokit owner repo = map Inr rss"
    and none: "list_all (nameOther (seriesOf (title m))) (concat rss)"
    and issues: "issues_listForRepo octokit (issueOptions owner repo milestone state None) =
      map Inr pss'"
  have "latestReleaseInSeries octokit owner repo milestone log =
      (Inr None,
       log @ GetMilestone owner repo milestone # replicate (length rss) (ListReleases owner repo))"
    unfolding latestReleaseInSeries_def using none
    by (simp add: ms pages releasePages_none)
  then show "fst (getIssuesByMilestone Date octokit owner repo milestone state log) =
      Inr (concat pss')"
    by (simp add: getIssuesByMilestone_def Let_def issues issuePages_ok postFilter_None)
qed

text \<open>
  Issues closed a second before and a second after the release and an open one: with the
  release found only the later one is kept; for a series without a release all three are.
\<close>

theorem C1_post_filter_witness:
  "issues_getMilestone
     (sampleOctokit [[milestone162]] [Inr [release161], Inr [release162]]
        [Inr [issueBefore, issueOpen], Inr [issueAfter]])
     ''WordPress'' ''gutenberg'' 7 = Inr milestone162 \<and>
   repos_listReleases
     (sampleOctokit [[milestone162]] [Inr [release161], Inr [release162]]
        [Inr [issueBefore, issueOpen], Inr [issueAfter]])
     ''WordPress'' ''gutenberg'' = map Inr [[release161]] @ Inr ([] @ release162 # []) # [] \<and>
   list_all (nameOther (seriesOf (title milestone162))) (concat [[release161]] @ []) \<and>
   nameStartsWith (seriesOf (title milestone162)) release162 \<and>
   published_at release162 = Value ''2023-07-05T12:00:00Z'' \<and>
   ''2023-07-05T12:00:00Z'' \<noteq> [] \<and>
   issues_listForRepo
     (sampleOctokit [[milestone162]] [Inr [release161], Inr [release162]]
        [Inr [issueBefore, issueOpen], Inr [issueAfter]])
     (issueOptions ''WordPress'' ''gutenberg'' 7 None (Some release162)) =
     map Inr [[issueBefore, issueOpen], [issueAfter]] \<and>
   fst (getIssuesByMilestone sampleDate
     (sampleOctokit [[milestone162]] [Inr [release161], Inr [release162]]
        [Inr [issueBefore, issueOpen], Inr [issueAfter]])
     ''WordPress'' ''gutenberg'' 7 None []) = Inr [issueAfter] \<and>
   issues_getMilestone
     (sampleOctokit [[milestone163]] [Inr [release161], Inr [release162]]
        [Inr [issueBefore, issueOpen], Inr [issueAfter]])
     ''WordPress'' ''gutenberg'' 8 = Inr milestone163 \<and>
   repos_listReleases
     (sampleOctokit [[milestone163]] [Inr [release161], Inr [release162]]
        [Inr [issueBefore, issueOpen], Inr [issueAfter]])
     ''WordPress'' ''gutenberg'' = map Inr [[release161], [release162]] \<and>
   list_all (nameOther (seriesOf (title milestone163))) (concat [[release161], [release162]]) \<and>
   issues_listForRepo
     (sampleOctokit [[milestone163]] [Inr [release161], Inr [release162]]
        [Inr [issueBefore, issueOpen], Inr [issueAfter]])
     (issueOptions ''WordPress'' ''gutenberg'' 8 None None) =
     map Inr [[issueBefore, issueOpen], [issueAfter]] \<and>
   fst (getIssuesByMilestone sampleDate
     (sampleOctokit [[milestone163]] [Inr [release161], Inr [release162]]
        [Inr [issueBefore, issueOpen], Inr [issueAfter]])
     ''WordPress'' ''gutenberg'' 8 None []) = Inr [issueBefore, issueOpen, issueAfter]"
  using
    C1_post_filter_gated_on_publish_time
      [where octokit = "sampleOctokit [[milestone162]] [Inr [release161], Inr [release162]]
             [Inr [issueBefore, issueOpen], Inr [issueAfter]]"
         and owner = "''WordPress''" and repo = "''gutenberg''" and milestone = 7
         and m = milestone162 and pre = "[[release161]]" and xs = "[]" and r = release162
         and ys = "[]" and rest = "[]" and p = "''2023-07-05T12:00:00Z''" and state = None
         and pss = "[[issueBefore, issueOpen], [issueAfter]]" and Date = sampleDate
         and log = "[]"]
    C1_post_filter_gated_on_publish_time
      [where octokit = "sampleOctokit [[milestone163]] [Inr [release161], Inr [release162]]
             [Inr [issueBefore, issueOpen], Inr [issueAfter]]"
         and owner = "''WordPress''" and repo = "''gutenberg''" and milestone = 8
         and m = milestone163 and rss = "[[release161], [release162]]" and state = None
         and pss' = "[[issueBefore, issueOpen], [issueAfter]]" and Date = sampleDate
         and log = "[]"]
  by (simp add: sampleOctokit_def sampleDate_def milestone162_def milestone163_def
        release161_def release162_def issueBefore_def issueAfter_def issueOpen_def seriesOf_def startsWith_def nameOther_def nameStartsWith_def
        closedStrictlyLater_def)

text \<open>
  Claim C1 as worded fails: the release found here is a draft, its \<^verbatim>\<open>published_at\<close> is null,
  and the operation returns both issues, among them one whose \<^verbatim>\<open>closed_at\<close> is null.
\<close>

theorem C1_matched_draft_counterexample:
  "fst (latestReleaseInSeries
     (sampleOctokit [[milestone162]] [Inr [draft162]] [Inr [issueOpen, issueBefore]])
     ''WordPress'' ''gutenberg'' 7 []) = Inr (Some draft162) \<and>
   fst (getIssuesByMilestone sampleDate
     (sampleOctokit [[milestone162]] [Inr [draft162]] [Inr [issueOpen, issueBefore]])
     ''WordPress'' ''gutenberg'' 7 None []) = Inr [issueOpen, issueBefore] \<and>
   published_at draft162 = Null \<and> closed_at issueOpen = Null"
  by (simp add: sampleOctokit_def milestone162_def draft162_def issueOpen_def seriesOf_def startsWith_def latestReleaseInSeries_def
        getIssuesByMilestone_def issueOptions_def postFilter_def)

text \<open>
  Claim C9. Let the milestone be fetched and the issue pages all arrive. If the first
  release whose name starts with the series has the \<^verbatim>\<open>published_at\<close> null, the operation
  returns the accumulated issues as they are: a release was found, and no filter runs.
\<close>

theorem C9_null_publish_time_no_filter:
  assumes ms: "issues_getMilestone octokit owner repo milestone = Inr m"
    and pages: "repos_listReleases octokit owner repo = map Inr pre @ Inr (xs @ r # ys) # rest"
    and before: "list_all (nameOther (seriesOf (title m))) (concat pre @ xs)"
    and hit: "nameStartsWith (seriesOf (title m)) r"
    and null: "published_at r = Null"
    and issues: "issues_listForRepo octokit (issueOptions owner repo milestone state (Some r)) =
      map Inr pss"
  shows "fst (getIssuesByMilestone Date octokit owner repo milestone state log) = Inr (concat pss)"
proof -
  have "latestReleaseInSeries octokit owner repo milestone log =
      (Inr (Some r),
       log @ GetMilestone owner repo milestone #
         replicate (Suc (length pre)) (ListReleases owner repo))"
    unfolding latestReleaseInSeries_def using before hit
    by (simp add: ms pages releasePages_match)
  moreover have "postFilter Date (Some r) pulls = pulls" for pulls
    by (simp add: postFilter_def null)
  ultimately show ?thesis
    by (simp add: getIssuesByMilestone_def Let_def issues issuePages_ok)
qed

text \<open>A draft ahead of the published release of the series: all three issues come back.\<close>

theorem C9_null_publish_time_witness:
  "issues_getMilestone
     (sampleOctokit [[milestone162]] [Inr [release161, draft162, release162]]
        [Inr [issueBefore, issueOpen], Inr [issueAfter]])
     ''WordPress'' ''gutenberg'' 7 = Inr milestone162 \<and>
   repos_listReleases
     (sampleOctokit [[milestone162]] [Inr [release161, draft162, release162]]
        [Inr [issueBefore, issueOpen], Inr [issueAfter]])
     ''WordPress'' ''gutenberg'' = map Inr [] @ Inr ([release161] @ draft162 # [release162]) # [] \<and>
   list_all (nameOther (seriesOf (title milestone162))) (concat [] @ [release161]) \<and>
   nameStartsWith (seriesOf (title milestone162)) draft162 \<and>
   published_at draft162 = Null \<and>
   issues_listForRepo
     (sampleOctokit [[milestone162]] [Inr [release161, draft162, release162]]
        [Inr [issueBefore, issueOpen], Inr [issueAfter]])
     (issueOptions ''WordPress'' ''gutenberg'' 7 None (Some draft162)) =
     map Inr [[issueBefore, issueOpen], [issueAfter]] \<and>
   fst (getIssuesByMilestone sampleDate
     (sampleOctokit [[milestone162]] [Inr [release161, draft162, release162]]
        [Inr [issueBefore, issueOpen], Inr [issueAfter]])
     ''WordPress'' ''gutenberg'' 7 None []) = Inr [issueBefore, issueOpen, issueAfter]"
  using C9_null_publish_time_no_filter
    [where octokit = "sampleOctokit [[milestone162]] [Inr [release161, draft162, release162]]
           [Inr [issueBefore, issueOpen], Inr [issueAfter]]"
       and owner = "''WordPress''" and repo = "''gutenberg''" and milestone = 7
       and m = milestone162 and pre = "[]" and xs = "[release161]" and r = draft162
       and ys = "[release162]" and rest = "[]" and state = None
       and pss = "[[issueBefore, issueOpen], [issueAfter]]" and Date = sampleDate and log = "[]"]
  by (simp add: sampleOctokit_def milestone162_def release161_def draft162_def seriesOf_def startsWith_def nameOther_def nameStartsWith_def)

section \<open>Errors\<close>

text \<open>
  Claim C7. If the fetch of the milestone is rejected with \<open>e\<close>, the operation is rejected
  with \<open>e\<close> and has sent that one request only, none for releases or issues. If a release
  page is rejected with \<open>e\<close> while the scan is still going, or an issue page is rejected
  with \<open>e\<close>, the operation is rejected with \<open>e\<close> at that request, and what was accumulated
  is not returned.
\<close>

theorem C7_errors_propagate:
  "(issues_getMilestone octokit owner repo milestone = Inl e \<longrightarrow>
      getIssuesByMilestone Date octokit owner repo milestone state log =
        (Inl e, log @ [GetMilestone owner repo milestone])) \<and>
   (issues_getMilestone octokit owner repo milestone = Inr m \<and>
    repos_listReleases octokit owner repo = map Inr pre @ Inl e # rest \<and>
    list_all (nameOther (seriesOf (title m))) (concat pre) \<longrightarrow>
      getIssuesByMilestone Date octokit owner repo milestone state log =
        (Inl e,
         log @ GetMilestone owner repo milestone #
           replicate (Suc (length pre)) (ListReleases owner repo))) \<and>
   (latestReleaseInSeries octokit owner repo milestone log = (Inr latest, log2) \<and>
    issues_listForRepo octokit (issueOptions owner repo milestone state latest) =
      map Inr pss @ Inl e # rest' \<longrightarrow>
      getIssuesByMilestone Date octokit owner repo milestone state log =
        (Inl e,
         log2 @ replicate (Suc (length pss))
           (ListForRepo (issueOptions owner repo milestone state latest))))"
proof (intro conjI impI; (elim conjE)?)
  assume "issues_getMilestone octokit owner repo milestone = Inl e"
  then show "getIssuesByMilestone Date octokit owner repo milestone state log =
      (Inl e, log @ [GetMilestone owner repo milestone])"
    by (simp add: getIssuesByMilestone_def latestReleaseInSeries_def)
next
  assume "issues_getMilestone octokit owner repo milestone = Inr m"
    and "repos_listReleases octokit owner repo = map Inr pre @ Inl e # rest"
    and "list_all (nameOther (seriesOf (title m))) (concat pre)"
  then show "getIssuesByMilestone Date octokit owner repo milestone state log =
      (Inl e,
       log @ GetMilestone owner repo milestone #
         replicate (Suc (length pre)) (ListReleases owner repo))"
    by (simp add: getIssuesByMilestone_def latestReleaseInSeries_def releasePages_rejected)
next
  assume "latestReleaseInSeries octokit owner repo milestone log = (Inr latest, log2)"
    and "issues_listForRepo octokit (issueOptions owner repo milestone state latest) =
      map Inr pss @ Inl e # rest'"
  then show "getIssuesByMilestone Date octokit owner repo milestone state log =
      (Inl e,
       log2 @ replicate (Suc (length pss))
         (ListForRepo (issueOptions owner repo milestone state latest)))"
    by (simp add: getIssuesByMilestone_def Let_def issuePages_rejected)
qed

text \<open>An unknown milestone number, a failing second release page, a failing second issue page.\<close>

theorem C7_errors_propagate_witness:
  "issues_getMilestone
     (sampleOctokit [[milestone162]] [Inr [release162]] [Inr [issueAfter]])
     ''WordPress'' ''gutenberg'' 99 = Inl (RequestError ''Not Found'') \<and>
   getIssuesByMilestone sampleDate
     (sampleOctokit [[milestone162]] [Inr [release162]] [Inr [issueAfter]])
     ''WordPress'' ''gutenberg'' 99 None [] =
     (Inl (RequestError ''Not Found''), [GetMilestone ''WordPress'' ''gutenberg'' 99]) \<and>
   issues_getMilestone
     (sampleOctokit [[milestone162]]
        [Inr [release161], Inl (RequestError ''Bad Gateway''), Inr [release162]] [Inr [issueAfter]])
     ''WordPress'' ''gutenberg'' 7 = Inr milestone162 \<and>
   repos_listReleases
     (sampleOctokit [[milestone162]]
        [Inr [release161], Inl (RequestError ''Bad Gateway''), Inr [release162]] [Inr [issueAfter]])
     ''WordPress'' ''gutenberg'' =
     map Inr [[release161]] @ Inl (RequestError ''Bad Gateway'') # [Inr [release162]] \<and>
   list_all (nameOther (seriesOf (title milestone162))) (concat [[release161]]) \<and>
   getIssuesByMilestone sampleDate
     (sampleOctokit [[milestone162]]
        [Inr [release161], Inl (RequestError ''Bad Gateway''), Inr [release162]] [Inr [issueAfter]])
     ''WordPress'' ''gutenberg'' 7 None [] =
     (Inl (RequestError ''Bad Gateway''),
      [GetMilestone ''WordPress'' ''gutenberg'' 7, ListReleases ''WordPress'' ''gutenberg'',
       ListReleases ''WordPress'' ''gutenberg'']) \<and>
   latestReleaseInSeries
     (sampleOctokit [[milestone162]] [Inr [release162]]
        [Inr [issueAfter], Inl (RequestError ''Bad Gateway''), Inr [issueBefore]])
     ''WordPress'' ''gutenberg'' 7 [] =
     (Inr (Some release162),
      [GetMilestone ''WordPress'' ''gutenberg'' 7, ListReleases ''WordPress'' ''gutenberg'']) \<and>
   issues_listForRepo
     (sampleOctokit [[milestone162]] [Inr [release162]]
        [Inr [issueAfter], Inl (RequestError ''Bad Gateway''), Inr [issueBefore]])
     (issueOptions ''WordPress'' ''gutenberg'' 7 None (Some release162)) =
     map Inr [[issueAfter]] @ Inl (RequestError ''Bad Gateway'') # [Inr [issueBefore]] \<and>
   fst (getIssuesByMilestone sampleDate
     (sampleOctokit [[milestone162]] [Inr [release162]]
        [Inr [issueAfter], Inl (RequestError ''Bad Gateway''), Inr [issueBefore]])
     ''WordPress'' ''gutenberg'' 7 None []) = Inl (RequestError ''Bad Gateway'')"
  using
    C7_errors_propagate
      [where octokit = "sampleOctokit [[milestone162]] [Inr [release162]] [Inr [issueAfter]]"
         and owner = "''WordPress''" and repo = "''gutenberg''" and milestone = 99
         and e = "RequestError ''Not Found''" and Date = sampleDate and state = None
         and log = "[]"]
    C7_errors_propagate
      [where octokit = "sampleOctokit [[milestone162]]
             [Inr [release161], Inl (RequestError ''Bad Gateway''), Inr [release162]]
             [Inr [issueAfter]]"
         and owner = "''WordPress''" and repo = "''gutenberg''" and milestone = 7
         and e = "RequestError ''Bad Gateway''" and Date = sampleDate and state = None
         and log = "[]" and m = milestone162 and pre = "[[release161]]"
         and rest = "[Inr [release162]]"]
    C7_errors_propagate
      [where octokit = "sampleOctokit [[milestone162]] [Inr [release162]]
             [Inr [issueAfter], Inl (RequestError ''Bad Gateway''), Inr [issueBefore]]"
         and owner = "''WordPress''" and repo = "''gutenberg''" and milestone = 7
         and e = "RequestError ''Bad Gateway''" and Date = sampleDate and state = None
         and log = "[]" and latest = "Some release162"
         and ?log2.0 = "[GetMilestone ''WordPress'' ''gutenberg'' 7,
                         ListReleases ''WordPress'' ''gutenberg'']"
         and pss = "[[issueAfter]]" and rest' = "[Inr [issueBefore]]"]
  by (simp add: sampleOctokit_def milestone162_def release161_def release162_def seriesOf_def startsWith_def nameOther_def
        latestReleaseInSeries_def getIssuesByMilestone_def issueOptions_def)

end
